theory Spec2Isabelle
  imports Main "HOL-Library.Sublist"
begin

section \<open>JavaScript values that come out of JSON\<close>

text \<open>
  Both scripts exchange JSON. A parsed JSON value is one of six things; a number is kept
  as the text ECMAScript's \<open>Number::toString\<close> prints for it, which is all that either
  script ever does with a number. Strings are lists of 8-bit characters. An object is the
  list of its own properties in insertion order, with no key twice (\<open>JSON.parse\<close> keeps the
  last occurrence of a repeated key, so a parsed object never has one).
\<close>

datatype json =
    JNull
  | JBool bool
  | JNum string
  | JStr string
  | JArr "json list"
  | JObj "(string \<times> json) list"

text \<open>A JavaScript value is \<open>undefined\<close> or one of the above.\<close>

datatype jsval = Undefined | Val json

text \<open>
  What a promise of the client can reject with: a rejection that the environment produced
  (\<open>fetch\<close> or \<open>response.json()\<close>, with the environment's reason), or one of the
  \<open>TypeError\<close>s that the client's own steps can throw: destructuring \<open>null\<close>, reading a
  property of \<open>undefined\<close> or \<open>null\<close>, setting a property of \<open>null\<close>, and converting
  to a string an object that cannot be converted.
\<close>

datatype error =
    Rejected string
  | TypeError_destructure string
  | TypeError_read string jsval
  | TypeError_set string
  | TypeError_convert

subsection \<open>\<open>JSON.stringify\<close>\<close>

fun join :: "string \<Rightarrow> string list \<Rightarrow> string" where
  "join sep [] = []"
| "join sep [x] = x"
| "join sep (x # y # ys) = x @ sep @ join sep (y # ys)"

definition hex_digit :: "nat \<Rightarrow> char" where
  "hex_digit n = ''0123456789abcdef'' ! (n mod 16)"

text \<open>
  \<open>QuoteJSONString\<close>: the five short escapes, the quotation mark and the backslash, a
  \<open>\u00XX\<close> escape for the other control characters, and every other character as it is.
\<close>

definition quote_char :: "char \<Rightarrow> string" where
  "quote_char c =
     (if c = CHR 0x08 then [CHR 0x5C, CHR ''b'']
      else if c = CHR 0x09 then [CHR 0x5C, CHR ''t'']
      else if c = CHR 0x0A then [CHR 0x5C, CHR ''n'']
      else if c = CHR 0x0C then [CHR 0x5C, CHR ''f'']
      else if c = CHR 0x0D then [CHR 0x5C, CHR ''r'']
      else if c = CHR 0x22 then [CHR 0x5C, CHR 0x22]
      else if c = CHR 0x5C then [CHR 0x5C, CHR 0x5C]
      else if (of_char c :: nat) < 32
        then [CHR 0x5C, CHR ''u'', CHR ''0'', CHR ''0'',
              hex_digit (of_char c div 16), hex_digit (of_char c)]
      else [c])"

definition JSON_quote :: "string \<Rightarrow> string" where
  "JSON_quote s = [CHR 0x22] @ concat (map quote_char s) @ [CHR 0x22]"

fun JSON_stringify :: "json \<Rightarrow> string" where
  "JSON_stringify JNull = ''null''"
| "JSON_stringify (JBool b) = (if b then ''true'' else ''false'')"
| "JSON_stringify (JNum n) = n"
| "JSON_stringify (JStr s) = JSON_quote s"
| "JSON_stringify (JArr xs) = ''['' @ join '','' (map JSON_stringify xs) @ '']''"
| "JSON_stringify (JObj kvs) =
     ''{'' @ join '','' (map (\<lambda>(k, v). JSON_quote k @ '':'' @ JSON_stringify v) kvs) @ ''}''"

subsection \<open>Property reads\<close>

text \<open>
  \<open>v.p\<close> for the two property names the client reads, \<open>data\<close> and \<open>greeting\<close>. Reading
  a property of \<open>undefined\<close> or \<open>null\<close> throws. An object gives its own property or
  \<open>undefined\<close>. An array, a string, a number and a boolean have neither name as an own or
  inherited property, so the read gives \<open>undefined\<close>.
\<close>

fun get_prop :: "jsval \<Rightarrow> string \<Rightarrow> error + jsval" where
  "get_prop Undefined p = Inl (TypeError_read p Undefined)"
| "get_prop (Val JNull) p = Inl (TypeError_read p (Val JNull))"
| "get_prop (Val (JObj kvs)) p =
     Inr (case map_of kvs p of None \<Rightarrow> Undefined | Some v \<Rightarrow> Val v)"
| "get_prop (Val v) p = Inr Undefined"

text \<open>
  \<open>const { data } = v\<close>: the destructuring pattern throws on \<open>null\<close> before any
  property is read; on every other parsed value it reads \<open>v.data\<close>.
\<close>

definition destructure_data :: "json \<Rightarrow> error + jsval" where
  "destructure_data v =
     (case v of JNull \<Rightarrow> Inl (TypeError_destructure ''data'')
      | _ \<Rightarrow> get_prop (Val v) ''data'')"

text \<open>
  The member of a JSON object under a key, as JSON has it (no object, no member), and the
  member \<open>greeting\<close> of the member \<open>data\<close>.
\<close>

fun member :: "string \<Rightarrow> json \<Rightarrow> json option" where
  "member k (JObj kvs) = map_of kvs k"
| "member k v = None"

definition data_greeting :: "json \<Rightarrow> json option" where
  "data_greeting v = Option.bind (member ''data'' v) (member ''greeting'')"

text \<open>
  What the expression \<open>data.greeting\<close> stands for on a parsed body, in terms of the body
  alone: nothing when the body has no member \<open>data\<close> or that member is \<open>null\<close> (there is
  no \<open>greeting\<close> to speak of), the member \<open>greeting\<close> of \<open>data\<close> when it has one, and
  \<open>undefined\<close> when \<open>data\<close> is there and has none.
\<close>

definition data_greeting_value :: "json \<Rightarrow> jsval option" where
  "data_greeting_value v =
     (case member ''data'' v of
        None \<Rightarrow> None
      | Some d \<Rightarrow>
          (if d = JNull then None
           else Some (case member ''greeting'' d of None \<Rightarrow> Undefined | Some g \<Rightarrow> Val g)))"

subsection \<open>Conversion to a string\<close>

text \<open>The results of a list of steps, or the first error among them.\<close>

fun all_or_first_error :: "(error + 'a) list \<Rightarrow> error + 'a list" where
  "all_or_first_error [] = Inr []"
| "all_or_first_error (Inl e # rs) = Inl e"
| "all_or_first_error (Inr x # rs) =
     (case all_or_first_error rs of Inl e \<Rightarrow> Inl e | Inr xs \<Rightarrow> Inr (x # xs))"

text \<open>
  \<open>ToString\<close> on a parsed value. An array joins its elements with commas, converting
  each in turn and printing \<open>null\<close> elements as nothing. An object is converted by its
  \<open>toString\<close> method: an object without an own member of that name inherits the one that
  prints \<open>[object Object]\<close>; an own member \<open>toString\<close> came out of \<open>JSON.parse\<close> and is
  not a function, the inherited \<open>valueOf\<close> gives the object back (and an own one is not a
  function either), so the conversion throws a \<open>TypeError\<close>.
\<close>

fun ToString :: "json \<Rightarrow> error + string" where
  "ToString JNull = Inr ''null''"
| "ToString (JBool b) = Inr (if b then ''true'' else ''false'')"
| "ToString (JNum n) = Inr n"
| "ToString (JStr s) = Inr s"
| "ToString (JArr xs) =
     (case all_or_first_error (map (\<lambda>x. if x = JNull then Inr [] else ToString x) xs) of
        Inl e \<Rightarrow> Inl e
      | Inr ss \<Rightarrow> Inr (join '','' ss))"
| "ToString (JObj kvs) =
     (if ''toString'' \<in> set (map fst kvs) then Inl TypeError_convert
      else Inr ''[object Object]'')"

text \<open>
  \<open>textContent\<close> is a nullable \<open>DOMString\<close> attribute: \<open>undefined\<close> and \<open>null\<close> are
  taken as the empty string, every other value goes through \<open>ToString\<close>, which can throw.
\<close>

fun to_DOMString :: "jsval \<Rightarrow> error + string" where
  "to_DOMString Undefined = Inr []"
| "to_DOMString (Val JNull) = Inr []"
| "to_DOMString (Val v) = ToString v"

section \<open>The document\<close>

text \<open>
  The document is the forest of its nodes: text nodes, and elements with a tag, attributes
  and children. A node is addressed by the path of child indices that leads to it.
\<close>

datatype node =
    Text string
  | Element string "(string \<times> string) list" "node list"

type_synonym path = "nat list"

text \<open>
  \<open>document.getElementById(i)\<close>: the first element in tree order whose \<open>id\<close> attribute
  is \<open>i\<close>, or \<open>null\<close>.
\<close>

fun find_in_node :: "string \<Rightarrow> node \<Rightarrow> path option"
  and find_in_nodes :: "string \<Rightarrow> nat \<Rightarrow> node list \<Rightarrow> path option" where
  "find_in_node i (Text s) = None"
| "find_in_node i (Element tag attrs cs) =
     (if map_of attrs ''id'' = Some i then Some [] else find_in_nodes i 0 cs)"
| "find_in_nodes i k [] = None"
| "find_in_nodes i k (c # cs) =
     (case find_in_node i c of Some p \<Rightarrow> Some (k # p)
      | None \<Rightarrow> find_in_nodes i (Suc k) cs)"

definition getElementById :: "string \<Rightarrow> node list \<Rightarrow> path option" where
  "getElementById i doc = find_in_nodes i 0 doc"

text \<open>The node at a path, and the node's own data without its children.\<close>

fun node_at :: "path \<Rightarrow> node list \<Rightarrow> node option" where
  "node_at [] ns = None"
| "node_at [k] ns = (if k < length ns then Some (ns ! k) else None)"
| "node_at (k # p) ns =
     (if k < length ns
      then (case ns ! k of Text s \<Rightarrow> None | Element tag attrs cs \<Rightarrow> node_at p cs)
      else None)"

fun shallow :: "node \<Rightarrow> string + string \<times> (string \<times> string) list" where
  "shallow (Text s) = Inl s"
| "shallow (Element tag attrs cs) = Inr (tag, attrs)"

text \<open>The \<open>textContent\<close> getter: the text of all text nodes below, in tree order.\<close>

fun textContent :: "node \<Rightarrow> string"
  and textContents :: "node list \<Rightarrow> string" where
  "textContent (Text s) = s"
| "textContent (Element tag attrs cs) = textContents cs"
| "textContents [] = []"
| "textContents (c # cs) = textContent c @ textContents cs"

text \<open>
  The \<open>textContent\<close> setter on one node: an element's children are replaced by a single
  text node, or by nothing when the string is empty.
\<close>

fun replace_children :: "string \<Rightarrow> node \<Rightarrow> node" where
  "replace_children s (Text old) = Text s"
| "replace_children s (Element tag attrs cs) =
     Element tag attrs (if s = [] then [] else [Text s])"

fun update_at :: "path \<Rightarrow> (node \<Rightarrow> node) \<Rightarrow> node list \<Rightarrow> node list" where
  "update_at [] f ns = ns"
| "update_at [k] f ns = (if k < length ns then ns[k := f (ns ! k)] else ns)"
| "update_at (k # p) f ns =
     (if k < length ns
      then (case ns ! k of Text s \<Rightarrow> ns
            | Element tag attrs cs \<Rightarrow> ns[k := Element tag attrs (update_at p f cs)])
      else ns)"

text \<open>
  \<open>el.textContent = v\<close>: the value is converted first, and a conversion that throws
  leaves the document alone.
\<close>

definition set_textContent :: "path \<Rightarrow> jsval \<Rightarrow> node list \<Rightarrow> error + node list" where
  "set_textContent el v doc =
     (case to_DOMString v of
        Inl e \<Rightarrow> Inl e
      | Inr s \<Rightarrow> Inr (update_at el (replace_children s) doc))"

section \<open>The client\<close>

text \<open>
  A request as \<open>fetch\<close> gets it: the URL and, from the options, \<open>method\<close> (here
  \<open>http_method\<close>), \<open>headers\<close> and \<open>body\<close>.
\<close>

record request =
  url :: string
  http_method :: string
  headers :: "(string \<times> string) list"
  body :: string

text \<open>
  What the client can see of a response. It only ever calls \<open>response.json()\<close>, whose
  outcome is the parsed body or a rejection; the status, the \<open>ok\<close> flag and the headers
  are there and never read.
\<close>

record response =
  status :: nat
  ok :: bool
  response_headers :: "(string \<times> string) list"
  json :: "error + json"

text \<open>
  The arguments of the one call to \<open>fetch\<close>: the URL, and the options with the method,
  the header and the body.
\<close>

definition greeting_request :: request where
  "greeting_request =
     \<lparr>url = ''http://localhost:9001/'',
      http_method = ''POST'',
      headers = [(''Content-Type'', ''application/json'')],
      body = JSON_stringify (JObj [(''query'', JStr ''query { greeting }'')])\<rparr>"

text \<open>
  \<open>fetchGreeting\<close>, with the network as a function from the request to the outcome of
  \<open>fetch\<close>, and the list of requests sent so far threaded through. The result is what the
  returned promise settles to.
\<close>

definition fetchGreeting ::
  "(request \<Rightarrow> error + response) \<Rightarrow> request list \<Rightarrow> (error + jsval) \<times> request list" where
  "fetchGreeting fetch sent0 =
     (case fetch greeting_request of
        Inl e \<Rightarrow> Inl e
      | Inr response \<Rightarrow>
          (case json response of
             Inl e \<Rightarrow> Inl e
           | Inr parsed \<Rightarrow>
               (case destructure_data parsed of
                  Inl e \<Rightarrow> Inl e
                | Inr data \<Rightarrow> get_prop data ''greeting'')),
      sent0 @ [greeting_request])"

text \<open>
  The page: the requests sent, the document as it is when the promise settles, and the
  rejections that no handler took.
\<close>

record page =
  sent :: "request list"
  document :: "node list"
  unhandled :: "error list"

text \<open>
  The script's last statement, \<open>fetchGreeting().then(...)\<close>. There is no second argument
  to \<open>then\<close> and no \<open>catch\<close>: a rejection of \<open>fetchGreeting\<close> skips the callback, and a
  throw inside the callback (\<open>getElementById\<close> gave \<open>null\<close>) rejects the promise that
  \<open>then\<close> returned, and so does a throw of the assignment; either way nothing handles it.
\<close>

definition script :: "(request \<Rightarrow> error + response) \<Rightarrow> page \<Rightarrow> page" where
  "script fetch pg =
     (case fetchGreeting fetch (sent pg) of
        (Inl e, s) \<Rightarrow> pg\<lparr>sent := s, unhandled := unhandled pg @ [e]\<rparr>
      | (Inr greeting, s) \<Rightarrow>
          (case getElementById ''greeting'' (document pg) of
             None \<Rightarrow> pg\<lparr>sent := s, unhandled := unhandled pg @ [TypeError_set ''textContent'']\<rparr>
           | Some el \<Rightarrow>
               (case set_textContent el greeting (document pg) of
                  Inl e \<Rightarrow> pg\<lparr>sent := s, unhandled := unhandled pg @ [e]\<rparr>
                | Inr doc \<Rightarrow> pg\<lparr>sent := s, document := doc\<rparr>)))"

section \<open>The service\<close>

subsection \<open>What \<open>server.js\<close> itself defines\<close>

text \<open>The schema text, character for character as the template literal has it.\<close>

definition typeDefs :: string where
  "typeDefs =
     ''#graphql'' @ [CHR 0x0A] @
     ''    schema {'' @ [CHR 0x0A] @
     ''        query: Query'' @ [CHR 0x0A] @
     ''    }'' @ [CHR 0x0A] @
     ''    type Query {'' @ [CHR 0x0A] @
     ''        greeting: String '' @ [CHR 0x0A] @
     ''    }'' @ [CHR 0x0A]"

text \<open>
  The resolver \<open>() => 'Hello world'\<close>. It declares no parameter, so whatever the caller
  passes (\<open>'a\<close>) is dropped, and it touches no state: the state of the process (\<open>'s\<close>) is
  passed through as it came.
\<close>

definition greeting :: "'a \<Rightarrow> 's \<Rightarrow> string \<times> 's" where
  "greeting args s = (''Hello world'', s)"

definition resolvers :: "(string \<times> (string \<times> ('a \<Rightarrow> 's \<Rightarrow> string \<times> 's)) list) list" where
  "resolvers = [(''Query'', [(''greeting'', greeting)])]"

text \<open>Calling the resolver any number of times, one call after the other.\<close>

fun call_all :: "'a list \<Rightarrow> 's \<Rightarrow> string list \<times> 's" where
  "call_all [] s = ([], s)"
| "call_all (a # as) s =
     (case greeting a s of (r, s') \<Rightarrow>
        (case call_all as s' of (rs, s'') \<Rightarrow> (r # rs, s'')))"

subsection \<open>The GraphQL language\<close>

text \<open>
  Modelled from the spec: the GraphQL engine (\<open>@apollo/server\<close> and the \<open>graphql\<close>
  package under it) is not among the sources. The spec says that the service executes a
  GraphQL operation against the schema and its resolvers, answers in the standard response
  shape, and answers a malformed query, such as one with a field the schema does not have,
  with an \<open>errors\<close> array. What follows is the GraphQL language as far as that takes:
  the tokens; schema documents made of \<open>schema { ... }\<close> and \<open>type T { f: T ... }\<close>;
  request documents made of operations and fragments. Every function answers \<open>None\<close> on
  a text it does not read, so nothing is claimed about such a text.
\<close>

datatype token =
    Name string
  | LBrace
  | RBrace
  | Colon
  | Bang
  | Punct char
  | Spread
  | IntTok string
  | FloatTok string
  | StrTok string

definition is_digit :: "char \<Rightarrow> bool" where
  "is_digit c = (48 \<le> (of_char c :: nat) \<and> (of_char c :: nat) \<le> 57)"

definition is_name_char :: "char \<Rightarrow> bool" where
  "is_name_char c =
     (c = CHR ''_'' \<or> is_digit c
      \<or> (65 \<le> (of_char c :: nat) \<and> (of_char c :: nat) \<le> 90)
      \<or> (97 \<le> (of_char c :: nat) \<and> (of_char c :: nat) \<le> 122))"

text \<open>Ignored between tokens: tab, line feed, carriage return, space and comma.\<close>

definition is_ignored :: "char \<Rightarrow> bool" where
  "is_ignored c = (c \<in> set [CHR 0x09, CHR 0x0A, CHR 0x0D, CHR '' '', CHR '','']) "

definition punctuator :: "char \<Rightarrow> token option" where
  "punctuator c =
     (if c = CHR ''{'' then Some LBrace
      else if c = CHR ''}'' then Some RBrace
      else if c = CHR '':'' then Some Colon
      else if c = CHR ''!'' then Some Bang
      else if c \<in> set ''$&()=@[]|'' then Some (Punct c)
      else None)"

text \<open>
  Where the lexer is inside a number: after the minus sign, after a leading zero, in the
  integer digits, after the point, in the fraction digits, after the exponent mark, after
  the exponent's sign, in the exponent digits.
\<close>

datatype num_phase = Minus | Zero | IntPart | Dot | Frac | Exp | ExpSign | ExpDigits

text \<open>
  Where the lexer is: between tokens; in a name; in a \<open>#\<close> comment; in a number; after
  one or two of the three dots of a spread; after one or two opening quotation marks; in a
  string; after a backslash in a string; in a block string (with the number of quotation
  marks just read, and whether a backslash stands before them).
\<close>

datatype mode =
    Idle
  | InName string
  | InComment
  | InNumber num_phase string
  | Dots nat
  | Quote1
  | Quote2
  | InString string
  | Escaped string
  | InBlock nat bool string

text \<open>
  Modelled from the spec: the engine's lexer on a character that stands between tokens.
\<close>

definition start :: "char \<Rightarrow> (token list \<times> mode) option" where
  "start c =
     (if is_name_char c \<and> \<not> is_digit c then Some ([], InName [c])
      else if c = CHR ''-'' then Some ([], InNumber Minus [c])
      else if c = CHR ''0'' then Some ([], InNumber Zero [c])
      else if is_digit c then Some ([], InNumber IntPart [c])
      else if c = CHR ''#'' then Some ([], InComment)
      else if is_ignored c then Some ([], Idle)
      else if c = CHR ''.'' then Some ([], Dots 1)
      else if c = CHR 0x22 then Some ([], Quote1)
      else (case punctuator c of Some t \<Rightarrow> Some ([t], Idle) | None \<Rightarrow> None))"

text \<open>A token has ended just before the character \<open>c\<close>.\<close>

definition after :: "token list \<Rightarrow> char \<Rightarrow> (token list \<times> mode) option" where
  "after ts c = map_option (\<lambda>(us, m). (ts @ us, m)) (start c)"

text \<open>The number read so far, when it can end here.\<close>

definition number_token :: "num_phase \<Rightarrow> string \<Rightarrow> token option" where
  "number_token ph acc =
     (if ph = Zero \<or> ph = IntPart then Some (IntTok acc)
      else if ph = Frac \<or> ph = ExpDigits then Some (FloatTok acc)
      else None)"

text \<open>
  Modelled from the spec: one more character of a number. A number has no leading zero,
  needs a digit after the point and in the exponent, and must not run into a point or a
  name.
\<close>

definition number_step :: "num_phase \<Rightarrow> string \<Rightarrow> char \<Rightarrow> (token list \<times> mode) option" where
  "number_step ph acc c =
     (if is_digit c then
        (case ph of
           Minus \<Rightarrow> Some ([], InNumber (if c = CHR ''0'' then Zero else IntPart) (acc @ [c]))
         | Zero \<Rightarrow> None
         | IntPart \<Rightarrow> Some ([], InNumber IntPart (acc @ [c]))
         | Dot \<Rightarrow> Some ([], InNumber Frac (acc @ [c]))
         | Frac \<Rightarrow> Some ([], InNumber Frac (acc @ [c]))
         | Exp \<Rightarrow> Some ([], InNumber ExpDigits (acc @ [c]))
         | ExpSign \<Rightarrow> Some ([], InNumber ExpDigits (acc @ [c]))
         | ExpDigits \<Rightarrow> Some ([], InNumber ExpDigits (acc @ [c])))
      else if c = CHR ''.'' then
        (if ph = Zero \<or> ph = IntPart then Some ([], InNumber Dot (acc @ [c])) else None)
      else if c = CHR ''e'' \<or> c = CHR ''E'' then
        (if ph = Zero \<or> ph = IntPart \<or> ph = Frac then Some ([], InNumber Exp (acc @ [c]))
         else None)
      else if (c = CHR ''+'' \<or> c = CHR ''-'') \<and> ph = Exp then
        Some ([], InNumber ExpSign (acc @ [c]))
      else if is_name_char c then None
      else (case number_token ph acc of None \<Rightarrow> None | Some t \<Rightarrow> after [t] c))"

text \<open>
  Modelled from the spec: one more character of a string. The string is kept as it is
  written between its quotation marks, escapes and all. A line end or another control
  character but the tab is not read, and of the escapes only the one-letter ones.
\<close>

definition is_control :: "char \<Rightarrow> bool" where
  "is_control c = ((of_char c :: nat) < 32 \<and> c \<noteq> CHR 0x09)"

definition string_step :: "string \<Rightarrow> char \<Rightarrow> (token list \<times> mode) option" where
  "string_step acc c =
     (if c = CHR 0x22 then Some ([StrTok acc], Idle)
      else if c = CHR 0x5C then Some ([], Escaped (acc @ [c]))
      else if is_control c then None
      else Some ([], InString (acc @ [c])))"

text \<open>
  Modelled from the spec: one more character of a block string, which ends at three
  quotation marks that no backslash precedes.
\<close>

definition block_step :: "nat \<Rightarrow> bool \<Rightarrow> string \<Rightarrow> char \<Rightarrow> (token list \<times> mode) option" where
  "block_step q esc acc c =
     (if c = CHR 0x22 then
        (if q = 2 then
           (if esc then Some ([], InBlock 0 False (acc @ [c]))
            else Some ([StrTok (take (length acc - 2) acc)], Idle))
         else Some ([], InBlock (Suc q) esc (acc @ [c])))
      else if is_control c \<and> c \<noteq> CHR 0x0A \<and> c \<noteq> CHR 0x0D then None
      else Some ([], InBlock 0 (c = CHR 0x5C) (acc @ [c])))"

text \<open>
  Modelled from the spec: the engine's lexer, one character at a time: the tokens that
  end at this character and where the lexer is after it.
\<close>

fun step :: "mode \<Rightarrow> char \<Rightarrow> (token list \<times> mode) option" where
  "step Idle c = start c"
| "step (InName acc) c =
     (if is_name_char c then Some ([], InName (acc @ [c])) else after [Name acc] c)"
| "step InComment c = Some ([], if c = CHR 0x0A \<or> c = CHR 0x0D then Idle else InComment)"
| "step (InNumber ph acc) c = number_step ph acc c"
| "step (Dots n) c =
     (if c = CHR ''.'' then (if n = 2 then Some ([Spread], Idle) else Some ([], Dots (Suc n)))
      else None)"
| "step Quote1 c = (if c = CHR 0x22 then Some ([], Quote2) else string_step [] c)"
| "step Quote2 c = (if c = CHR 0x22 then Some ([], InBlock 0 False []) else after [StrTok []] c)"
| "step (InString acc) c = string_step acc c"
| "step (Escaped acc) c =
     (if c \<in> set [CHR 0x22, CHR 0x5C, CHR ''/'', CHR ''b'', CHR ''f'', CHR ''n'', CHR ''r'', CHR ''t'']
      then Some ([], InString (acc @ [c]))
      else None)"
| "step (InBlock q esc acc) c = block_step q esc acc c"

text \<open>The end of the text: a name, a number or an empty string may end there.\<close>

fun finish :: "mode \<Rightarrow> token list option" where
  "finish Idle = Some []"
| "finish (InName acc) = Some [Name acc]"
| "finish InComment = Some []"
| "finish (InNumber ph acc) = map_option (\<lambda>t. [t]) (number_token ph acc)"
| "finish Quote2 = Some [StrTok []]"
| "finish m = None"

fun scan :: "mode \<Rightarrow> string \<Rightarrow> token list option" where
  "scan m [] = finish m"
| "scan m (c # cs) =
     (case step m c of
        None \<Rightarrow> None
      | Some (ts, m') \<Rightarrow> map_option ((@) ts) (scan m' cs))"

definition lex :: "string \<Rightarrow> token list option" where
  "lex src = scan Idle src"

subsection \<open>Schema documents\<close>

text \<open>A field's type: a named type, nullable as it stands or made non-null by \<open>!\<close>.\<close>

datatype gtype = Nullable string | NonNull string

datatype sdl_definition = SchemaDef "(string \<times> string) list" | TypeDef string "(string \<times> gtype) list"

text \<open>
  Modelled from the spec: the engine's parser for the body of \<open>schema { ... }\<close>, a list
  of \<open>operation: Type\<close> up to the closing brace. The rest of the tokens is returned.
\<close>

fun parse_roots :: "token list \<Rightarrow> ((string \<times> string) list \<times> token list) option" where
  "parse_roots [] = None"
| "parse_roots (t # ts) =
     (case t of
        RBrace \<Rightarrow> Some ([], ts)
      | Name k \<Rightarrow>
          (case ts of
             Colon # Name ty # rest \<Rightarrow>
               (if k \<in> set [''query'', ''mutation'', ''subscription'']
                then map_option (\<lambda>(rs, rest'). ((k, ty) # rs, rest')) (parse_roots rest)
                else None)
           | _ \<Rightarrow> None)
      | _ \<Rightarrow> None)"

text \<open>
  Modelled from the spec: the engine's parser for the body of \<open>type T { ... }\<close>, a list
  of \<open>field: Type\<close> or \<open>field: Type!\<close> up to the closing brace.
\<close>

fun parse_fields :: "token list \<Rightarrow> ((string \<times> gtype) list \<times> token list) option" where
  "parse_fields [] = None"
| "parse_fields (t # ts) =
     (case t of
        RBrace \<Rightarrow> Some ([], ts)
      | Name f \<Rightarrow>
          (case ts of
             Colon # Name ty # Bang # rest \<Rightarrow>
               map_option (\<lambda>(fs, rest'). ((f, NonNull ty) # fs, rest')) (parse_fields rest)
           | Colon # Name ty # rest \<Rightarrow>
               map_option (\<lambda>(fs, rest'). ((f, Nullable ty) # fs, rest')) (parse_fields rest)
           | _ \<Rightarrow> None)
      | _ \<Rightarrow> None)"

text \<open>
  Modelled from the spec: the engine's parser for a schema document, a sequence of
  \<open>schema { ... }\<close> and \<open>type T { ... }\<close> definitions.
\<close>

function parse_definitions :: "token list \<Rightarrow> sdl_definition list option" where
  "parse_definitions [] = Some []"
| "parse_definitions (t # ts) =
     (case t of
        Name kw \<Rightarrow>
          (if kw = ''schema'' then
             (case ts of
                LBrace # inner \<Rightarrow>
                  (case parse_roots inner of
                     Some (rs, rest) \<Rightarrow> map_option ((#) (SchemaDef rs)) (parse_definitions rest)
                   | None \<Rightarrow> None)
              | _ \<Rightarrow> None)
           else if kw = ''type'' then
             (case ts of
                Name n # LBrace # inner \<Rightarrow>
                  (case parse_fields inner of
                     Some (fs, rest) \<Rightarrow> map_option ((#) (TypeDef n fs)) (parse_definitions rest)
                   | None \<Rightarrow> None)
              | _ \<Rightarrow> None)
           else None)
      | _ \<Rightarrow> None)"
  by pat_completeness auto
termination
proof -
  have roots_shorter: "length rest < length ts"
    if "parse_roots ts = Some (rs, rest)" for ts rs rest
    using that
  proof (induction ts arbitrary: rs rest rule: parse_roots.induct)
    case 1
    then show ?case by simp
  next
    case (2 t ts)
    then show ?case
      by (fastforce split: token.splits list.splits if_splits)
  qed
  have fields_shorter: "length rest < length ts"
    if "parse_fields ts = Some (fs, rest)" for ts fs rest
    using that
  proof (induction ts arbitrary: fs rest rule: parse_fields.induct)
    case 1
    then show ?case by simp
  next
    case (2 t ts)
    show ?case
    proof (cases t)
      case (Name f)
      show ?thesis
      proof (cases ts)
        case Nil
        with 2 Name show ?thesis by simp
      next
        case (Cons a as)
        show ?thesis using 2 Name Cons
          apply (cases a; simp)
          apply (cases as; simp)
          subgoal for b bs
            apply (cases b; simp)
            apply (cases bs; simp)
            subgoal for ty c cs
              by (cases c; fastforce)
            done
          done
      qed
    qed (use 2 in auto)
  qed
  show ?thesis
    by (relation "measure length") (auto dest!: roots_shorter fields_shorter)
qed

record schema =
  roots :: "(string \<times> string) list"
  types :: "(string \<times> (string \<times> gtype) list) list"

fun roots_of :: "sdl_definition \<Rightarrow> (string \<times> string) list option" where
  "roots_of (SchemaDef rs) = Some rs"
| "roots_of (TypeDef n fs) = None"

fun type_of :: "sdl_definition \<Rightarrow> (string \<times> (string \<times> gtype) list) option" where
  "type_of (SchemaDef rs) = None"
| "type_of (TypeDef n fs) = Some (n, fs)"

fun type_name :: "gtype \<Rightarrow> string" where
  "type_name (Nullable n) = n"
| "type_name (NonNull n) = n"

text \<open>
  Modelled from the spec: the schema that the engine builds from the definitions. The
  fragment has one \<open>schema\<close> definition, distinct operation, type and field names, root
  types that are defined, and fields of the built-in type \<open>String\<close> only.
\<close>

definition build_schema :: "sdl_definition list \<Rightarrow> schema option" where
  "build_schema defs =
     (case List.map_filter roots_of defs of
        [rs] \<Rightarrow>
          (let ts = List.map_filter type_of defs in
           if distinct (map fst rs) \<and> distinct (map fst ts)
              \<and> list_all (\<lambda>(k, t). t \<in> set (map fst ts)) rs
              \<and> list_all (\<lambda>(n, fs). distinct (map fst fs)
                            \<and> list_all (\<lambda>(f, ty). type_name ty = ''String'') fs) ts
           then Some \<lparr>roots = rs, types = ts\<rparr>
           else None)
      | _ \<Rightarrow> None)"

text \<open>The fields that a query can select: those of the root type of queries.\<close>

definition query_fields :: "schema \<Rightarrow> string list" where
  "query_fields sch =
     (case map_of (roots sch) ''query'' of
        None \<Rightarrow> []
      | Some T \<Rightarrow> (case map_of (types sch) T of None \<Rightarrow> [] | Some fs \<Rightarrow> map fst fs))"

subsection \<open>The server object\<close>

record ('a, 's) apollo =
  schema :: schema
  resolver_map :: "(string \<times> (string \<times> ('a \<Rightarrow> 's \<Rightarrow> string \<times> 's)) list) list"

text \<open>
  Modelled from the spec: \<open>new ApolloServer({ typeDefs, resolvers })\<close>, whose code is not
  among the sources. The schema text is parsed and built, and the resolvers must name, type
  by type, exactly the fields that the schema declares; \<open>None\<close> is a constructor that
  throws or a configuration outside the fragment.
\<close>

definition ApolloServer ::
  "string \<Rightarrow> (string \<times> (string \<times> ('a \<Rightarrow> 's \<Rightarrow> string \<times> 's)) list) list
     \<Rightarrow> ('a, 's) apollo option" where
  "ApolloServer tds rs =
     (case Option.bind (Option.bind (lex tds) parse_definitions) build_schema of
        None \<Rightarrow> None
      | Some sch \<Rightarrow>
          if map (\<lambda>(t, fs). (t, map fst fs)) rs = map (\<lambda>(t, fs). (t, map fst fs)) (types sch)
          then Some \<lparr>schema = sch, resolver_map = rs\<rparr>
          else None)"

text \<open>\<open>const server = new ApolloServer({ typeDefs: typeDefs, resolvers: resolvers })\<close>.\<close>

definition server :: "('a, 's) apollo option" where
  "server = ApolloServer typeDefs resolvers"

subsection \<open>Request documents\<close>

text \<open>
  A value in a request: a variable, a number or a string as it is written, a boolean,
  \<open>null\<close>, an enum value, a list or an object.
\<close>

datatype gvalue =
    Variable string
  | IntValue string
  | FloatValue string
  | StringValue string
  | BooleanValue bool
  | NullValue
  | EnumValue string
  | ListValue "gvalue list"
  | ObjectValue "(string \<times> gvalue) list"

type_synonym arguments = "(string \<times> gvalue) list"

type_synonym directives = "(string \<times> arguments) list"

text \<open>
  A selection: a field with its alias, name, arguments, directives and own selection; the
  spread of a named fragment; an inline fragment with its type condition.
\<close>

datatype selection =
    FieldNode "string option" string arguments directives "selection list"
  | FragmentSpread string directives
  | InlineFragment "string option" directives "selection list"

datatype type_ref = NamedRef string | ListRef type_ref | NonNullRef type_ref

type_synonym variable_definition = "string \<times> type_ref \<times> gvalue option \<times> directives"

text \<open>
  A definition of a request document: an operation with its kind, name, variables,
  directives and selection, or a fragment with its name, type condition, directives and
  selection.
\<close>

datatype executable =
    Operation string "string option" "variable_definition list" directives "selection list"
  | Fragment string string directives "selection list"

text \<open>
  Modelled from the spec: the parsers of the engine, which is not among the sources. Each
  takes the tokens and gives what it read and the tokens left. The number in front (\<open>n\<close>)
  bounds the depth and the repetitions; a parser is started with the number of tokens it
  gets, and every level and every repetition uses up a token, so the bound is never what
  stops it.

  \<open>many n close p\<close> reads with \<open>p\<close> again and again up to the token \<open>close\<close>.
\<close>

fun many ::
  "nat \<Rightarrow> token \<Rightarrow> (token list \<Rightarrow> ('a \<times> token list) option) \<Rightarrow> token list
     \<Rightarrow> ('a list \<times> token list) option" where
  "many n close p [] = None"
| "many 0 close p (t # ts) = (if t = close then Some ([], ts) else None)"
| "many (Suc n) close p (t # ts) =
     (if t = close then Some ([], ts)
      else (case p (t # ts) of
              None \<Rightarrow> None
            | Some (x, rest) \<Rightarrow> map_option (\<lambda>(xs, r). (x # xs, r)) (many n close p rest)))"

text \<open>The same, and at least one.\<close>

definition many1 ::
  "nat \<Rightarrow> token \<Rightarrow> (token list \<Rightarrow> ('a \<times> token list) option) \<Rightarrow> token list
     \<Rightarrow> ('a list \<times> token list) option" where
  "many1 n close p ts =
     (case many n close p ts of Some (x # xs, r) \<Rightarrow> Some (x # xs, r) | _ \<Rightarrow> None)"

text \<open>
  Modelled from the spec: a value. \<open>const\<close> says that no variable may stand in it.
\<close>

fun parse_value :: "nat \<Rightarrow> bool \<Rightarrow> token list \<Rightarrow> (gvalue \<times> token list) option" where
  "parse_value n const [] = None"
| "parse_value n const (t # ts) =
     (case t of
        IntTok i \<Rightarrow> Some (IntValue i, ts)
      | FloatTok x \<Rightarrow> Some (FloatValue x, ts)
      | StrTok x \<Rightarrow> Some (StringValue x, ts)
      | Name x \<Rightarrow>
          Some (if x = ''true'' then BooleanValue True
                else if x = ''false'' then BooleanValue False
                else if x = ''null'' then NullValue
                else EnumValue x, ts)
      | Punct p \<Rightarrow>
          (if p = CHR ''$'' then
             (if const then None
              else (case ts of Name v # rest \<Rightarrow> Some (Variable v, rest) | _ \<Rightarrow> None))
           else if p = CHR ''['' then
             (case n of
                0 \<Rightarrow> None
              | Suc m \<Rightarrow>
                  map_option (\<lambda>(vs, r). (ListValue vs, r))
                    (many m (Punct (CHR '']'')) (\<lambda>us. parse_value m const us) ts))
           else None)
      | LBrace \<Rightarrow>
          (case n of
             0 \<Rightarrow> None
           | Suc m \<Rightarrow>
               map_option (\<lambda>(fs, r). (ObjectValue fs, r))
                 (many m RBrace
                    (\<lambda>us. case us of
                             Name k # Colon # vs \<Rightarrow>
                               map_option (\<lambda>(v, r). ((k, v), r)) (parse_value m const vs)
                           | _ \<Rightarrow> None)
                    ts))
      | _ \<Rightarrow> None)"

text \<open>Modelled from the spec: one argument, \<open>name: value\<close>.\<close>

definition parse_argument ::
  "bool \<Rightarrow> token list \<Rightarrow> ((string \<times> gvalue) \<times> token list) option" where
  "parse_argument const ts =
     (case ts of
        Name k # Colon # vs \<Rightarrow>
          map_option (\<lambda>(v, r). ((k, v), r)) (parse_value (length vs) const vs)
      | _ \<Rightarrow> None)"

text \<open>
  Modelled from the spec: the arguments in parentheses, at least one, or none where no
  parenthesis opens.
\<close>

definition parse_arguments :: "bool \<Rightarrow> token list \<Rightarrow> (arguments \<times> token list) option" where
  "parse_arguments const ts =
     (case ts of
        Punct p # rest \<Rightarrow>
          (if p = CHR ''('' then many1 (length rest) (Punct (CHR '')'')) (parse_argument const) rest
           else Some ([], ts))
      | _ \<Rightarrow> Some ([], ts))"

text \<open>Modelled from the spec: the directives, \<open>@name\<close> with arguments, as many as follow.\<close>

fun parse_directives :: "nat \<Rightarrow> bool \<Rightarrow> token list \<Rightarrow> (directives \<times> token list) option" where
  "parse_directives n const [] = Some ([], [])"
| "parse_directives n const (t # ts) =
     (if t = Punct (CHR ''@'') then
        (case (n, ts) of
           (Suc m, Name d # rest) \<Rightarrow>
             (case parse_arguments const rest of
                None \<Rightarrow> None
              | Some (as, r) \<Rightarrow>
                  map_option (\<lambda>(ds, r'). ((d, as) # ds, r')) (parse_directives m const r))
         | _ \<Rightarrow> None)
      else Some ([], t # ts))"

text \<open>
  What a selection starts with. After the three dots, \<open>on\<close> and a type name open an
  inline fragment, any other name is the spread of a fragment, and anything else is an
  inline fragment without a type condition. A field starts with its name, or with an
  alias, a colon and its name.
\<close>

datatype selection_head =
    FieldHead "string option" string
  | SpreadHead string
  | InlineHead "string option"

text \<open>Modelled from the spec: the engine's parser at the start of a selection.\<close>

definition parse_selection_head :: "token list \<Rightarrow> (selection_head \<times> token list) option" where
  "parse_selection_head ts =
     (case ts of
        Spread # Name x # rest \<Rightarrow>
          (if x = ''on'' then
             (case rest of Name tc # r \<Rightarrow> Some (InlineHead (Some tc), r) | _ \<Rightarrow> None)
           else Some (SpreadHead x, rest))
      | Spread # rest \<Rightarrow> Some (InlineHead None, rest)
      | Name a # Colon # Name f # rest \<Rightarrow> Some (FieldHead (Some a) f, rest)
      | Name a # Colon # rest \<Rightarrow> None
      | Name f # rest \<Rightarrow> Some (FieldHead None f, rest)
      | _ \<Rightarrow> None)"

definition opens_brace :: "token list \<Rightarrow> bool" where
  "opens_brace ts = (case ts of LBrace # rest \<Rightarrow> True | _ \<Rightarrow> False)"

text \<open>
  Modelled from the spec: a selection set in braces, with at least one selection, and one
  selection. A field has arguments, directives and, where a brace opens, a selection set
  of its own; a spread has directives; an inline fragment has directives and a selection
  set.
\<close>

fun parse_selection_set :: "nat \<Rightarrow> token list \<Rightarrow> (selection list \<times> token list) option"
  and parse_selection :: "nat \<Rightarrow> token list \<Rightarrow> (selection \<times> token list) option" where
  "parse_selection_set 0 ts = None"
| "parse_selection_set (Suc n) ts =
     (if opens_brace ts then many1 n RBrace (\<lambda>us. parse_selection n us) (tl ts) else None)"
| "parse_selection 0 ts = None"
| "parse_selection (Suc n) ts =
     (case parse_selection_head ts of
        None \<Rightarrow> None
      | Some (SpreadHead x, rest) \<Rightarrow>
          map_option (\<lambda>(ds, r). (FragmentSpread x ds, r))
            (parse_directives (length rest) False rest)
      | Some (InlineHead tc, rest) \<Rightarrow>
          (case parse_directives (length rest) False rest of
             None \<Rightarrow> None
           | Some (ds, r) \<Rightarrow>
               map_option (\<lambda>(sub, r'). (InlineFragment tc ds sub, r'))
                 (parse_selection_set n r))
      | Some (FieldHead alias f, rest) \<Rightarrow>
          (case parse_arguments False rest of
             None \<Rightarrow> None
           | Some (as, r) \<Rightarrow>
               (case parse_directives (length r) False r of
                  None \<Rightarrow> None
                | Some (ds, r') \<Rightarrow>
                    if opens_brace r'
                    then map_option (\<lambda>(sub, r''). (FieldNode alias f as ds sub, r''))
                           (parse_selection_set n r')
                    else Some (FieldNode alias f as ds [], r'))))"

text \<open>Modelled from the spec: the type of a variable.\<close>

fun parse_type :: "nat \<Rightarrow> token list \<Rightarrow> (type_ref \<times> token list) option" where
  "parse_type 0 ts = None"
| "parse_type (Suc n) ts =
     (case (case ts of
              Name x # rest \<Rightarrow> Some (NamedRef x, rest)
            | Punct p # rest \<Rightarrow>
                (if p = CHR ''['' then
                   (case parse_type n rest of
                      Some (ty, Punct q # r) \<Rightarrow>
                        if q = CHR '']'' then Some (ListRef ty, r) else None
                    | _ \<Rightarrow> None)
                 else None)
            | _ \<Rightarrow> None) of
        None \<Rightarrow> None
      | Some (ty, Bang # r) \<Rightarrow> Some (NonNullRef ty, r)
      | Some (ty, r) \<Rightarrow> Some (ty, r))"

text \<open>
  Modelled from the spec: one variable definition, \<open>$name: Type\<close> with an optional
  default value and directives, both without variables.
\<close>

definition parse_variable_definition ::
  "token list \<Rightarrow> (variable_definition \<times> token list) option" where
  "parse_variable_definition ts =
     (case ts of
        Punct p # Name v # Colon # rest \<Rightarrow>
          (if p = CHR ''$'' then
             (case parse_type (length rest) rest of
                None \<Rightarrow> None
              | Some (ty, r) \<Rightarrow>
                  (case (case r of
                           Punct q # r' \<Rightarrow>
                             (if q = CHR ''='' then
                                map_option (\<lambda>(d, r''). (Some d, r''))
                                  (parse_value (length r') True r')
                              else Some (None, r))
                         | _ \<Rightarrow> Some (None, r)) of
                     None \<Rightarrow> None
                   | Some (dflt, r1) \<Rightarrow>
                       map_option (\<lambda>(ds, r2). ((v, ty, dflt, ds), r2))
                         (parse_directives (length r1) True r1)))
           else None)
      | _ \<Rightarrow> None)"

definition parse_variable_definitions ::
  "token list \<Rightarrow> (variable_definition list \<times> token list) option" where
  "parse_variable_definitions ts =
     (case ts of
        Punct p # rest \<Rightarrow>
          (if p = CHR ''('' then
             many1 (length rest) (Punct (CHR '')'')) parse_variable_definition rest
           else Some ([], ts))
      | _ \<Rightarrow> Some ([], ts))"

text \<open>
  Modelled from the spec: one definition. A brace opens the shorthand for a query; the
  keywords \<open>query\<close>, \<open>mutation\<close> and \<open>subscription\<close> open an operation, with an optional
  name, variables and directives; \<open>fragment\<close> opens a fragment, whose name is not \<open>on\<close>.
\<close>

definition parse_executable :: "token list \<Rightarrow> (executable \<times> token list) option" where
  "parse_executable ts =
     (case ts of
        LBrace # rest \<Rightarrow>
          map_option (\<lambda>(sels, r). (Operation ''query'' None [] [] sels, r))
            (parse_selection_set (length ts) ts)
      | Name k # rest \<Rightarrow>
          (if k \<in> set [''query'', ''mutation'', ''subscription''] then
             (case (case rest of Name n # r \<Rightarrow> (Some n, r) | _ \<Rightarrow> (None, rest)) of
                (name, r0) \<Rightarrow>
                  (case parse_variable_definitions r0 of
                     None \<Rightarrow> None
                   | Some (vs, r1) \<Rightarrow>
                       (case parse_directives (length r1) False r1 of
                          None \<Rightarrow> None
                        | Some (ds, r2) \<Rightarrow>
                            map_option (\<lambda>(sels, r3). (Operation k name vs ds sels, r3))
                              (parse_selection_set (length r2) r2))))
           else if k = ''fragment'' then
             (case rest of
                Name f # Name on # Name tc # r0 \<Rightarrow>
                  (if f \<noteq> ''on'' \<and> on = ''on'' then
                     (case parse_directives (length r0) False r0 of
                        None \<Rightarrow> None
                      | Some (ds, r1) \<Rightarrow>
                          map_option (\<lambda>(sels, r2). (Fragment f tc ds sels, r2))
                            (parse_selection_set (length r1) r1))
                   else None)
              | _ \<Rightarrow> None)
           else None)
      | _ \<Rightarrow> None)"

text \<open>Modelled from the spec: the definitions of a request document, to the last token.\<close>

fun parse_executables :: "nat \<Rightarrow> token list \<Rightarrow> executable list option" where
  "parse_executables n [] = Some []"
| "parse_executables 0 (t # ts) = None"
| "parse_executables (Suc n) (t # ts) =
     (case parse_executable (t # ts) of
        None \<Rightarrow> None
      | Some (d, rest) \<Rightarrow> map_option ((#) d) (parse_executables n rest))"

text \<open>A request document has at least one definition.\<close>

definition parse_document :: "token list \<Rightarrow> executable list option" where
  "parse_document ts =
     (case parse_executables (length ts) ts of Some (d # ds) \<Rightarrow> Some (d # ds) | _ \<Rightarrow> None)"

subsection \<open>Validation\<close>

text \<open>
  What the engine reports about a request before it executes anything, as far as it is
  modelled here: a field that the type it is selected on does not have; a selection set
  under a field whose type has no fields; a type condition that names no type with fields.
  The engine has more rules than these three (for arguments, directives, variables,
  fragments and names that clash), so what is found here is part of what it reports.
\<close>

datatype gql_error =
    UnknownField string string
  | LeafSelection string
  | BadTypeCondition string

text \<open>
  A type condition that the schema text does not speak for: another type of the schema, or
  a type of the engine's introspection system (their names start with two underscores).
  What stands under such a condition is not looked into.
\<close>

definition opaque :: "schema \<Rightarrow> string \<Rightarrow> string option \<Rightarrow> bool" where
  "opaque sch T tc =
     (case tc of
        None \<Rightarrow> False
      | Some t \<Rightarrow> t \<noteq> T \<and> (t \<in> set (map fst (types sch)) \<or> take 2 t = ''__''))"

text \<open>
  Modelled from the spec: the errors of one selection made on the root type \<open>T\<close> of
  queries, whose fields (\<open>declared\<close>) are all of type \<open>String\<close>. A field of \<open>T\<close> and
  the field \<open>__typename\<close> have no fields below them, so a selection set under them is an
  error; \<open>__schema\<close> and \<open>__type\<close> lead into the introspection system and are not looked
  into; every other name is a field that \<open>T\<close> does not have. An inline fragment without a
  type condition, or on \<open>T\<close>, is looked through; one on a name that is no type with fields
  is an error.
\<close>

fun selection_errors :: "schema \<Rightarrow> string \<Rightarrow> string list \<Rightarrow> selection \<Rightarrow> gql_error list" where
  "selection_errors sch T declared (FieldNode alias f as ds sub) =
     (if f \<in> set declared \<or> f = ''__typename'' then (if sub = [] then [] else [LeafSelection f])
      else if f = ''__schema'' \<or> f = ''__type'' then []
      else [UnknownField f T])"
| "selection_errors sch T declared (FragmentSpread x ds) = []"
| "selection_errors sch T declared (InlineFragment tc ds sub) =
     (if tc = None \<or> tc = Some T then concat (map (selection_errors sch T declared) sub)
      else if opaque sch T tc then []
      else [BadTypeCondition (the tc)])"

text \<open>
  Modelled from the spec: the errors of one definition. A query is checked on the root
  type, a fragment as the inline fragment with its type condition would be.
\<close>

fun executable_errors :: "schema \<Rightarrow> string \<Rightarrow> string list \<Rightarrow> executable \<Rightarrow> gql_error list" where
  "executable_errors sch T declared (Operation k n vs ds sels) =
     concat (map (selection_errors sch T declared) sels)"
| "executable_errors sch T declared (Fragment x tc ds sels) =
     selection_errors sch T declared (InlineFragment (Some tc) [] sels)"




subsection \<open>Execution\<close>

record result =
  result_data :: "json option"
  result_errors :: "gql_error list"

definition first_occurrences :: "string list \<Rightarrow> string list" where
  "first_occurrences fs = rev (remdups (rev fs))"

text \<open>
  Modelled from the spec: the engine calls the resolver of each selected field, in the
  order of the selection, with arguments of its own (\<open>args\<close>), and puts each result under
  the field's name; \<open>__typename\<close> is the engine's own and gives the name of the type. The
  state of the process goes from one call to the next.
\<close>

fun execute_fields ::
  "string \<Rightarrow> (string \<times> ('a \<Rightarrow> 's \<Rightarrow> string \<times> 's)) list \<Rightarrow> 'a \<Rightarrow> string list \<Rightarrow> 's
     \<Rightarrow> (string \<times> json) list option \<times> 's" where
  "execute_fields T rs args [] s = (Some [], s)"
| "execute_fields T rs args (f # fs) s =
     (case (if f = ''__typename'' then Some (T, s)
            else map_option (\<lambda>r. r args s) (map_of rs f)) of
        None \<Rightarrow> (None, s)
      | Some (v, s') \<Rightarrow>
          (case execute_fields T rs args fs s' of
             (None, s'') \<Rightarrow> (None, s'')
           | (Some kvs, s'') \<Rightarrow> (Some ((f, JStr v) # kvs), s'')))"

text \<open>A selection that is a field and nothing more: no alias, argument, directive or selection set.\<close>

fun plain_field :: "selection \<Rightarrow> string option" where
  "plain_field (FieldNode None f [] [] []) = Some f"
| "plain_field sel = None"

fun is_query :: "executable \<Rightarrow> bool" where
  "is_query (Operation k n vs ds sels) = (k = ''query'')"
| "is_query (Fragment x tc ds sels) = True"

text \<open>
  Modelled from the spec: the fields to execute, for a request that is one query without
  variables and directives whose selections are plain fields of the root type or
  \<open>__typename\<close>. Other requests without errors are not modelled.
\<close>

definition plain_query :: "string list \<Rightarrow> executable list \<Rightarrow> string list option" where
  "plain_query declared doc =
     (case doc of
        [Operation k n [] [] sels] \<Rightarrow>
          (case those (map plain_field sels) of
             None \<Rightarrow> None
           | Some fs \<Rightarrow>
               if k = ''query'' \<and> list_all (\<lambda>f. f \<in> set declared \<or> f = ''__typename'') fs
               then Some fs else None)
      | _ \<Rightarrow> None)"

text \<open>
  Modelled from the spec: validation and execution of a request whose operations are
  queries. Any error found is answered with errors and no \<open>data\<close>; a plain query
  without errors is executed, a repeated field once; nothing is said of another request in
  which no error was found.
\<close>

definition execute ::
  "('a, 's) apollo \<Rightarrow> 'a \<Rightarrow> executable list \<Rightarrow> 's \<Rightarrow> result option \<times> 's" where
  "execute srv args doc s =
     (if \<not> list_all is_query doc then (None, s)
      else
        (case map_of (roots (schema srv)) ''query'' of
           None \<Rightarrow> (None, s)
         | Some T \<Rightarrow>
             (case (map_of (types (schema srv)) T, map_of (resolver_map srv) T) of
                (Some declared, Some rs) \<Rightarrow>
                  (let errs = concat (map (executable_errors (schema srv) T (map fst declared)) doc) in
                   if errs \<noteq> []
                   then (Some \<lparr>result_data = None, result_errors = errs\<rparr>, s)
                   else
                     (case plain_query (map fst declared) doc of
                        None \<Rightarrow> (None, s)
                      | Some fs \<Rightarrow>
                          (case execute_fields T rs args (first_occurrences fs) s of
                             (None, s') \<Rightarrow> (None, s')
                           | (Some kvs, s') \<Rightarrow>
                               (Some \<lparr>result_data = Some (JObj kvs), result_errors = []\<rparr>, s'))))
              | _ \<Rightarrow> (None, s))))"

text \<open>
  Modelled from the spec: the standard response shape, an \<open>errors\<close> member when there are
  errors and a \<open>data\<close> member when there is data. What stands in the \<open>errors\<close> array is
  left to the engine (\<open>fmt\<close>): it prints the errors found here, and with them whatever
  its other rules report on the request.
\<close>

definition response_json ::
  "(executable list \<Rightarrow> gql_error list \<Rightarrow> json list) \<Rightarrow> executable list \<Rightarrow> result \<Rightarrow> json" where
  "response_json fmt doc r =
     JObj ((if result_errors r = [] then []
            else [(''errors'', JArr (fmt doc (result_errors r)))])
           @ (case result_data r of None \<Rightarrow> [] | Some d \<Rightarrow> [(''data'', d)]))"

text \<open>
  Modelled from the spec: the answer to a POST whose parsed body is \<open>{ query: q }\<close>.
\<close>

definition handle ::
  "('a, 's) apollo \<Rightarrow> (executable list \<Rightarrow> gql_error list \<Rightarrow> json list) \<Rightarrow> 'a \<Rightarrow> json \<Rightarrow> 's
     \<Rightarrow> json option \<times> 's" where
  "handle srv fmt args posted s =
     (case posted of
        JObj [(k, JStr q)] \<Rightarrow>
          (if k = ''query'' then
             (case Option.bind (lex q) parse_document of
                None \<Rightarrow> (None, s)
              | Some doc \<Rightarrow>
                  (case execute srv args doc s of
                     (None, s') \<Rightarrow> (None, s')
                   | (Some r, s') \<Rightarrow> (Some (response_json fmt doc r), s')))
           else (None, s))
      | _ \<Rightarrow> (None, s))"

subsection \<open>Start-up\<close>

datatype effect = Listen nat | ConsoleLog string

text \<open>
  The module's top level. The process environment (\<open>env\<close>) is at hand and never read.
  \<open>startStandaloneServer\<close> is the library's (\<open>listen\<close>, from the port to a rejection or
  the URL it listens on); the script gives it the port 9001 and, once it has the URL, logs
  one line. A constructor that throws or a start that rejects ends the module there.
\<close>

definition server_script ::
  "(string \<Rightarrow> string option) \<Rightarrow> (nat \<Rightarrow> string + string) \<Rightarrow> effect list" where
  "server_script env listen =
     (case (server :: (unit, unit) apollo option) of
        None \<Rightarrow> []
      | Some srv \<Rightarrow>
          (case listen 9001 of
             Inl reason \<Rightarrow> [Listen 9001]
           | Inr listening \<Rightarrow> [Listen 9001, ConsoleLog (''Server running at '' @ listening)]))"

section \<open>Auxiliary notions\<close>

text \<open>
  What an update at a path does to the node it passes through, and the functions on nodes
  that leave the tag and the attributes of an element alone.
\<close>

definition upd_node :: "path \<Rightarrow> (node \<Rightarrow> node) \<Rightarrow> node \<Rightarrow> node" where
  "upd_node q f n =
     (if q = [] then f n
      else (case n of Text s \<Rightarrow> n | Element tag attrs cs \<Rightarrow> Element tag attrs (update_at q f cs)))"

definition keeps_element :: "(node \<Rightarrow> node) \<Rightarrow> bool" where
  "keeps_element f = (\<forall>tag attrs cs. \<exists>cs'. f (Element tag attrs cs) = Element tag attrs cs')"

text \<open>
  A page to run the client on, and a network that answers every request with a given
  status, headers and parsed body.
\<close>

definition example_document :: "node list" where
  "example_document =
     [Element ''html'' []
        [Element ''body'' []
           [Element ''h1'' [] [Text ''Greeting''],
            Element ''p'' [(''id'', ''greeting'')] [Text ''Loading...'']]]]"

definition example_page :: page where
  "example_page = \<lparr>sent = [], document = example_document, unhandled = []\<rparr>"

definition respond :: "nat \<Rightarrow> (string \<times> string) list \<Rightarrow> json \<Rightarrow> request \<Rightarrow> error + response" where
  "respond st hs j q =
     Inr \<lparr>status = st, ok = (200 \<le> st \<and> st < 300), response_headers = hs, json = Inr j\<rparr>"

section \<open>The document: what an update keeps\<close>

lemma keeps_element_replace_children: "keeps_element (replace_children s)"
  by (simp add: keeps_element_def)

lemma update_at_Cons:
  "update_at (k # q) f ns = ns[k := upd_node q f (ns ! k)]" if "k < length ns"
proof (cases q)
  case Nil
  then show ?thesis using that by (simp add: upd_node_def)
next
  case (Cons a as)
  show ?thesis
  proof (cases "ns ! k")
    case (Text s)
    then have "ns[k := Text s] = ns" by (metis list_update_id)
    with Text Cons that show ?thesis by (simp add: upd_node_def)
  next
    case (Element tag attrs cs)
    with Cons that show ?thesis by (simp add: upd_node_def)
  qed
qed

lemma node_at_Cons:
  "node_at (k # q) ns =
     (if k < length ns
      then (if q = [] then Some (ns ! k)
            else (case ns ! k of Text s \<Rightarrow> None | Element tag attrs cs \<Rightarrow> node_at q cs))
      else None)"
  by (cases q) auto

lemma find_update:
  fixes f :: "node \<Rightarrow> node"
  assumes f: "keeps_element f"
  shows "find_in_node i n = Some q \<Longrightarrow> find_in_node i (upd_node q f n) = Some q"
    and "find_in_nodes i k ns = Some p \<Longrightarrow>
           \<exists>j q. p = (k + j) # q \<and> j < length ns \<and> find_in_node i (ns ! j) = Some q
                 \<and> find_in_nodes i k (ns[j := upd_node q f (ns ! j)]) = Some p"
proof (induction i n and i k ns arbitrary: q and p rule: find_in_node_find_in_nodes.induct)
  case (1 i s)
  then show ?case by simp
next
  case (2 i tag attrs cs)
  show ?case
  proof (cases "map_of attrs ''id'' = Some i")
    case True
    with 2 have "q = []" by simp
    moreover obtain cs' where "f (Element tag attrs cs) = Element tag attrs cs'"
      using f unfolding keeps_element_def by blast
    ultimately show ?thesis using True by (simp add: upd_node_def)
  next
    case False
    with 2 have found: "find_in_nodes i 0 cs = Some q" by simp
    from 2(1)[OF False found] obtain j q' where
      "q = j # q'" "j < length cs"
      "find_in_nodes i 0 (cs[j := upd_node q' f (cs ! j)]) = Some q"
      by auto
    then show ?thesis using False
      by (simp add: upd_node_def update_at_Cons del: update_at.simps)
  qed
next
  case (3 i k)
  then show ?case by simp
next
  case (4 i k c cs)
  show ?case
  proof (cases "find_in_node i c")
    case (Some q0)
    with 4 have "p = k # q0" by simp
    moreover have "find_in_node i (upd_node q0 f c) = Some q0"
      using 4(1)[OF Some] .
    ultimately show ?thesis using Some
      by (intro exI[of _ 0] exI[of _ q0]) simp
  next
    case None
    with 4 have "find_in_nodes i (Suc k) cs = Some p" by simp
    from 4(2)[OF None this] obtain j q where
      "p = (Suc k + j) # q" "j < length cs" "find_in_node i (cs ! j) = Some q"
      "find_in_nodes i (Suc k) (cs[j := upd_node q f (cs ! j)]) = Some p"
      by auto
    then show ?thesis using None
      by (intro exI[of _ "Suc j"] exI[of _ q]) simp
  qed
qed

lemma getElementById_update:
  assumes "keeps_element f" "getElementById i doc = Some el"
  shows "getElementById i (update_at el f doc) = Some el"
proof -
  from find_update(2)[OF assms(1), of i 0 doc el] assms(2)
  obtain j q where "el = j # q" "j < length doc"
    "find_in_nodes i 0 (doc[j := upd_node q f (doc ! j)]) = Some el"
    by (auto simp: getElementById_def)
  then show ?thesis
    by (simp add: getElementById_def update_at_Cons del: update_at.simps)
qed

lemma find_is_element:
  shows "find_in_node i n = Some q \<Longrightarrow> \<exists>tag attrs cs. node_at (0 # q) [n] = Some (Element tag attrs cs) \<and> map_of attrs ''id'' = Some i"
  and "find_in_nodes i k ns = Some p \<Longrightarrow>
         \<exists>j q tag attrs cs. p = (k + j) # q \<and> node_at (j # q) ns = Some (Element tag attrs cs) \<and> map_of attrs ''id'' = Some i"
proof (induction i n and i k ns arbitrary: q and p rule: find_in_node_find_in_nodes.induct)
  case (1 i s)
  then show ?case by simp
next
  case (2 i tag attrs cs)
  show ?case
  proof (cases "map_of attrs ''id'' = Some i")
    case True
    with 2 show ?thesis by simp
  next
    case False
    with 2 have "find_in_nodes i 0 cs = Some q" by simp
    from 2(1)[OF False this] show ?thesis
      by (auto simp: node_at_Cons simp del: node_at.simps)
  qed
next
  case (3 i k)
  then show ?case by simp
next
  case (4 i k c cs)
  show ?case
  proof (cases "find_in_node i c")
    case (Some q0)
    with 4 have "p = k # q0" by simp
    with 4(1)[OF Some] show ?thesis
      by (intro exI[of _ 0] exI[of _ q0]) (auto simp: node_at_Cons simp del: node_at.simps)
  next
    case None
    with 4 have "find_in_nodes i (Suc k) cs = Some p" by simp
    from 4(2)[OF None this] obtain j q tag attrs cs' where
      "p = (Suc k + j) # q" "node_at (j # q) cs = Some (Element tag attrs cs')"
      "map_of attrs ''id'' = Some i"
      by blast
    then show ?thesis
      by (intro exI[of _ "Suc j"] exI[of _ q]) (auto simp: node_at_Cons simp del: node_at.simps split: if_splits)
  qed
qed

lemma getElementById_is_element:
  assumes "getElementById i doc = Some el"
  shows "\<exists>tag attrs cs. node_at el doc = Some (Element tag attrs cs) \<and> map_of attrs ''id'' = Some i"
  using find_is_element(2)[of i 0 doc el] assms by (auto simp: getElementById_def)

lemma node_at_update_same:
  "node_at p (update_at p f ns) = map_option f (node_at p ns)"
proof (induction p arbitrary: ns)
  case Nil
  then show ?case by simp
next
  case (Cons k p)
  show ?case
  proof (cases "k < length ns")
    case True
    then show ?thesis using Cons
      by (cases "ns ! k") (auto simp: node_at_Cons update_at_Cons upd_node_def simp del: node_at.simps update_at.simps)
  next
    case False
    then show ?thesis by (cases p) auto
  qed
qed

lemma node_at_update_frame:
  assumes "keeps_element f"
  shows "node_at p ns = Some (Element tag attrs cs) \<Longrightarrow> \<not> strict_prefix p q \<Longrightarrow>
         map_option shallow (node_at q (update_at p f ns)) = map_option shallow (node_at q ns)"
proof (induction p arbitrary: ns q)
  case Nil
  then show ?case by simp
next
  case (Cons k p)
  from Cons.prems(1) have k: "k < length ns"
    by (auto simp: node_at_Cons simp del: node_at.simps split: if_splits)
  show ?case
  proof (cases q)
    case Nil
    then show ?thesis by simp
  next
    case (Cons k' q')
    show ?thesis
    proof (cases "k' = k")
      case False
      with Cons k show ?thesis
        by (auto simp: node_at_Cons update_at_Cons simp del: node_at.simps update_at.simps)
    next
      case True
      show ?thesis
      proof (cases "p = []")
        case pe: True
        with Cons.prems(2) Cons True have "q' = []" by (cases q') auto
        moreover from Cons.prems(1) pe k have "ns ! k = Element tag attrs cs" by simp
        moreover obtain cs' where "f (Element tag attrs cs) = Element tag attrs cs'"
          using assms unfolding keeps_element_def by blast
        ultimately show ?thesis using Cons True pe k
          by (simp add: node_at_Cons update_at_Cons upd_node_def del: node_at.simps update_at.simps)
      next
        case pne: False
        with Cons.prems(1) k obtain t' a' c' where nk: "ns ! k = Element t' a' c'"
          and sub: "node_at p c' = Some (Element tag attrs cs)"
          by (auto simp: node_at_Cons simp del: node_at.simps split: node.splits)
        have nsp: "\<not> strict_prefix p q'" using Cons.prems(2) Cons True by simp
        show ?thesis
        proof (cases "q' = []")
          case True
          with Cons \<open>k' = k\<close> k nk pne show ?thesis
            by (simp add: node_at_Cons update_at_Cons upd_node_def del: node_at.simps update_at.simps)
        next
          case False
          with Cons \<open>k' = k\<close> k nk pne Cons.IH[OF sub nsp] show ?thesis
            by (simp add: node_at_Cons update_at_Cons upd_node_def del: node_at.simps update_at.simps)
        qed
      qed
    qed
  qed
qed

section \<open>The client: one run of the script\<close>

lemma greeting_request_eq:
  "greeting_request =
     \<lparr>url = ''http://localhost:9001/'', http_method = ''POST'',
      headers = [(''Content-Type'', ''application/json'')],
      body = ''{\"query\":\"query { greeting }\"}''\<rparr>"
  unfolding greeting_request_def by code_simp

lemma script_sent: "sent (script fetch pg) = sent pg @ [greeting_request]"
  by (simp add: script_def fetchGreeting_def split: sum.splits option.splits)

lemma fetchGreeting_sent: "snd (fetchGreeting fetch sent0) = sent0 @ [greeting_request]"
  by (simp add: fetchGreeting_def)

lemma fetchGreeting_resolved:
  assumes "fetch greeting_request = Inr r" "json r = Inr j"
  shows "fst (fetchGreeting fetch sent0) =
           (case destructure_data j of Inl e \<Rightarrow> Inl e | Inr d \<Rightarrow> get_prop d ''greeting'')"
  using assms by (simp add: fetchGreeting_def)

lemma read_data_greeting:
  assumes "data_greeting j = Some v"
  shows "(case destructure_data j of Inl e \<Rightarrow> Inl e | Inr d \<Rightarrow> get_prop d ''greeting'') = Inr (Val v)"
proof -
  from assms obtain d where d: "member ''data'' j = Some d" and v: "member ''greeting'' d = Some v"
    by (auto simp: data_greeting_def split: Option.bind_splits)
  from d obtain kvs where j: "j = JObj kvs" and kd: "map_of kvs ''data'' = Some d"
    by (cases j) auto
  from v obtain kvs' where d': "d = JObj kvs'" and kg: "map_of kvs' ''greeting'' = Some v"
    by (cases d) auto
  show ?thesis by (simp add: destructure_data_def j kd d' kg)
qed

lemma script_resolved:
  assumes "fst (fetchGreeting fetch (sent pg)) = Inr g"
    and "getElementById ''greeting'' (document pg) = Some el"
    and "to_DOMString g = Inr t"
  shows "script fetch pg =
           pg\<lparr>sent := sent pg @ [greeting_request],
              document := update_at el (replace_children t) (document pg)\<rparr>"
proof -
  have "fetchGreeting fetch (sent pg) = (Inr g, sent pg @ [greeting_request])"
    using assms(1) fetchGreeting_sent[of fetch "sent pg"] by (metis prod.collapse)
  then show ?thesis using assms(2,3) by (simp add: script_def set_textContent_def)
qed


lemma read_data_greeting_value:
  "(case destructure_data j of Inl e \<Rightarrow> Inl e | Inr d \<Rightarrow> get_prop d ''greeting'') =
     (case data_greeting_value j of
        Some g \<Rightarrow> Inr g
      | None \<Rightarrow>
          Inl (if j = JNull then TypeError_destructure ''data''
               else TypeError_read ''greeting''
                      (case member ''data'' j of None \<Rightarrow> Undefined | Some d \<Rightarrow> Val d)))"
proof (cases j)
  case (JObj kvs)
  show ?thesis
  proof (cases "map_of kvs ''data''")
    case None
    with JObj show ?thesis by (simp add: destructure_data_def data_greeting_value_def)
  next
    case (Some d)
    with JObj show ?thesis
      by (cases d) (simp_all add: destructure_data_def data_greeting_value_def)
  qed
qed (simp_all add: destructure_data_def data_greeting_value_def)

lemma script_rejected:
  assumes "fst (fetchGreeting fetch (sent pg)) = Inl e"
  shows "script fetch pg =
           pg\<lparr>sent := sent pg @ [greeting_request], unhandled := unhandled pg @ [e]\<rparr>"
proof -
  have "fetchGreeting fetch (sent pg) = (Inl e, sent pg @ [greeting_request])"
    using assms fetchGreeting_sent[of fetch "sent pg"] by (metis prod.collapse)
  then show ?thesis by (simp add: script_def)
qed


lemma null_body_throws:
  assumes "fetch greeting_request = Inr r" and "json r = Inr JNull"
  shows "script fetch pg =
           pg\<lparr>sent := sent pg @ [greeting_request],
              unhandled := unhandled pg @ [TypeError_destructure ''data'']\<rparr>"
proof -
  have "fst (fetchGreeting fetch (sent pg)) = Inl (TypeError_destructure ''data'')"
    using fetchGreeting_resolved[where fetch = fetch, OF assms] by (simp add: destructure_data_def)
  then show ?thesis by (rule script_rejected)
qed

lemma example_element: "getElementById ''greeting'' (document example_page) = Some [0, 0, 1]"
  by (simp add: example_page_def example_document_def getElementById_def)

lemma fetchGreeting_outcome:
  assumes "fetch greeting_request = Inr r" "json r = Inr j"
  shows "fst (fetchGreeting fetch sent0) =
     (case data_greeting_value j of
        Some g \<Rightarrow> Inr g
      | None \<Rightarrow>
          Inl (if j = JNull then TypeError_destructure ''data''
               else TypeError_read ''greeting''
                      (case member ''data'' j of None \<Rightarrow> Undefined | Some d \<Rightarrow> Val d)))"
  using fetchGreeting_resolved[where fetch = fetch, OF assms] read_data_greeting_value[of j]
  by simp

section \<open>The service: the schema text and the operations\<close>

lemma lex_typeDefs:
  "lex typeDefs =
     Some [Name ''schema'', LBrace, Name ''query'', Colon, Name ''Query'', RBrace,
           Name ''type'', Name ''Query'', LBrace, Name ''greeting'', Colon, Name ''String'',
           RBrace]"
  by code_simp

lemma parse_typeDefs:
  "parse_definitions
     [Name ''schema'', LBrace, Name ''query'', Colon, Name ''Query'', RBrace,
      Name ''type'', Name ''Query'', LBrace, Name ''greeting'', Colon, Name ''String'',
      RBrace] =
   Some [SchemaDef [(''query'', ''Query'')],
         TypeDef ''Query'' [(''greeting'', Nullable ''String'')]]"
  by code_simp

lemma build_typeDefs:
  "build_schema [SchemaDef [(''query'', ''Query'')],
                 TypeDef ''Query'' [(''greeting'', Nullable ''String'')]] =
   Some \<lparr>roots = [(''query'', ''Query'')],
          types = [(''Query'', [(''greeting'', Nullable ''String'')])]\<rparr>"
  by code_simp

lemma server_eq:
  "server = Some \<lparr>schema = \<lparr>roots = [(''query'', ''Query'')],
                              types = [(''Query'', [(''greeting'', Nullable ''String'')])]\<rparr>,
                   resolver_map = resolvers\<rparr>"
  by (simp add: server_def ApolloServer_def lex_typeDefs parse_typeDefs build_typeDefs
      resolvers_def)

lemma parse_query_greeting:
  "Option.bind (lex ''query { greeting }'') parse_document =
     Some [Operation ''query'' None [] [] [FieldNode None ''greeting'' [] [] []]]"
  by code_simp

lemma parse_shorthand_greeting:
  "Option.bind (lex ''{ greeting }'') parse_document =
     Some [Operation ''query'' None [] [] [FieldNode None ''greeting'' [] [] []]]"
  by code_simp

lemma execute_greeting:
  assumes "server = Some srv"
  shows "execute srv args
           [Operation ''query'' None [] [] [FieldNode None ''greeting'' [] [] []]] s =
           (Some \<lparr>result_data = Some (JObj [(''greeting'', JStr ''Hello world'')]),
                  result_errors = []\<rparr>, s)"
proof -
  have srv: "srv = \<lparr>schema = \<lparr>roots = [(''query'', ''Query'')],
                              types = [(''Query'', [(''greeting'', Nullable ''String'')])]\<rparr>,
                   resolver_map = resolvers\<rparr>"
    using assms by (simp add: server_eq)
  show ?thesis
    by (simp add: execute_def srv resolvers_def greeting_def plain_query_def
        first_occurrences_def)
qed







lemma startup_rejected:
  assumes "listen 9001 = Inl reason"
  shows "server_script env listen = [Listen 9001]"
  using assms by (simp add: server_script_def server_eq)

section \<open>The claims\<close>

text \<open>
  C1. Every call of the \<open>greeting\<close> resolver returns \<open>Hello world\<close>, whatever it is
  called with and whatever the state. Hence the service answers the request body
  \<open>{"query": "query { greeting }"}\<close>, and the shorthand \<open>{ greeting }\<close> as well, with the
  object \<open>{"data":{"greeting":"Hello world"}}\<close>, which prints as exactly that text; the
  state of the process is as before.
\<close>

theorem greeting_query_response:
  fixes args :: 'a and s :: 's
  shows "fst (greeting a s0) = ''Hello world''
   \<and> (\<exists>srv. server = Some srv
         \<and> handle srv fmt args (JObj [(''query'', JStr ''query { greeting }'')]) s =
             (Some (JObj [(''data'', JObj [(''greeting'', JStr ''Hello world'')])]), s)
         \<and> handle srv fmt args (JObj [(''query'', JStr ''{ greeting }'')]) s =
             (Some (JObj [(''data'', JObj [(''greeting'', JStr ''Hello world'')])]), s))
   \<and> JSON_stringify (JObj [(''data'', JObj [(''greeting'', JStr ''Hello world'')])]) =
       ''{\"data\":{\"greeting\":\"Hello world\"}}''"
proof -
  obtain srv :: "('a, 's) apollo" where srv: "server = Some srv"
    by (simp add: server_eq)
  have ex: "execute srv args
              [Operation ''query'' None [] [] [FieldNode None ''greeting'' [] [] []]] s =
           (Some \<lparr>result_data = Some (JObj [(''greeting'', JStr ''Hello world'')]),
                  result_errors = []\<rparr>, s)"
    by (rule execute_greeting[OF srv])
  have 1: "handle srv fmt args (JObj [(''query'', JStr ''query { greeting }'')]) s =
             (Some (JObj [(''data'', JObj [(''greeting'', JStr ''Hello world'')])]), s)"
    by (simp add: handle_def parse_query_greeting ex response_json_def)
  have 2: "handle srv fmt args (JObj [(''query'', JStr ''{ greeting }'')]) s =
             (Some (JObj [(''data'', JObj [(''greeting'', JStr ''Hello world'')])]), s)"
    by (simp add: handle_def parse_shorthand_greeting ex response_json_def)
  have 3: "JSON_stringify (JObj [(''data'', JObj [(''greeting'', JStr ''Hello world'')])]) =
       ''{\"data\":{\"greeting\":\"Hello world\"}}''"
    by code_simp
  have 4: "fst (greeting a s0) = ''Hello world''" by (simp add: greeting_def)
  from srv 1 2 3 4 show ?thesis by blast
qed

theorem greeting_query_response_witness:
  "handle (the server) (\<lambda>d e. []) () (JObj [(''query'', JStr ''query { greeting }'')]) () =
     (Some (JObj [(''data'', JObj [(''greeting'', JStr ''Hello world'')])]), ())"
  using greeting_query_response[where fmt = "\<lambda>d e. []" and args = "()" and s = "()"
      and a = "()" and ?s0.0 = "()"]
  by (auto simp: server_eq)

text \<open>
  C2. The schema text of the service reads as one \<open>schema\<close> definition with the single
  root operation \<open>query: Query\<close> and one type \<open>Query\<close> with the single field
  \<open>greeting\<close> of the nullable type \<open>String\<close>. The server is built from it: no
  \<open>mutation\<close> and no \<open>subscription\<close> root, and \<open>greeting\<close> is the only field a query can
  select.
\<close>

theorem schema_has_one_field:
  "Option.bind (lex typeDefs) parse_definitions =
     Some [SchemaDef [(''query'', ''Query'')],
           TypeDef ''Query'' [(''greeting'', Nullable ''String'')]]
   \<and> (\<exists>srv. (server :: ('a, 's) apollo option) = Some srv
         \<and> roots (schema srv) = [(''query'', ''Query'')]
         \<and> types (schema srv) = [(''Query'', [(''greeting'', Nullable ''String'')])]
         \<and> query_fields (schema srv) = [''greeting''])"
  by (simp add: lex_typeDefs parse_typeDefs server_eq query_fields_def)

theorem schema_has_one_field_witness:
  "query_fields (schema (the (server :: (unit, unit) apollo option))) = [''greeting'']"
  using schema_has_one_field[where ?'a = unit and ?'s = unit] by (auto simp: server_eq)

text \<open>
  C3. Whatever the network does, \<open>fetchGreeting\<close> sends exactly one request: a POST to
  \<open>http://localhost:9001/\<close> with the header \<open>Content-Type: application/json\<close> and the
  body \<open>{"query":"query { greeting }"}\<close>, which is \<open>JSON.stringify\<close> of the object
  \<open>{ query: 'query { greeting }' }\<close>. Nothing in the query text needs an escape, so it
  stands in the body between its quotation marks as it is.
\<close>

theorem fetchGreeting_one_post:
  "snd (fetchGreeting fetch sent0) =
     sent0 @ [\<lparr>url = ''http://localhost:9001/'', http_method = ''POST'',
               headers = [(''Content-Type'', ''application/json'')],
               body = ''{\"query\":\"query { greeting }\"}''\<rparr>]
   \<and> sent (script fetch pg) =
     sent pg @ [\<lparr>url = ''http://localhost:9001/'', http_method = ''POST'',
                 headers = [(''Content-Type'', ''application/json'')],
                 body = ''{\"query\":\"query { greeting }\"}''\<rparr>]
   \<and> body greeting_request = JSON_stringify (JObj [(''query'', JStr ''query { greeting }'')])
   \<and> JSON_quote ''query { greeting }'' = [CHR 0x22] @ ''query { greeting }'' @ [CHR 0x22]"
proof -
  have "JSON_quote ''query { greeting }'' = [CHR 0x22] @ ''query { greeting }'' @ [CHR 0x22]"
    by code_simp
  moreover have "body greeting_request = JSON_stringify (JObj [(''query'', JStr ''query { greeting }'')])"
    by (simp add: greeting_request_def)
  ultimately show ?thesis
    using fetchGreeting_sent[of fetch sent0] script_sent[of fetch pg]
    by (simp only: greeting_request_eq simp_thms)
qed

theorem fetchGreeting_one_post_witness:
  "snd (fetchGreeting (\<lambda>q. Inl (Rejected ''Failed to fetch'')) []) =
     [\<lparr>url = ''http://localhost:9001/'', http_method = ''POST'',
       headers = [(''Content-Type'', ''application/json'')],
       body = ''{\"query\":\"query { greeting }\"}''\<rparr>]"
  using fetchGreeting_one_post[of "\<lambda>q. Inl (Rejected ''Failed to fetch'')" "[]" example_page]
  by simp

text \<open>
  C4. When \<open>fetch\<close> resolves with a response whose parsed body has the string \<open>X\<close> as
  \<open>data.greeting\<close> (the body \<open>{"data":{"greeting":X}}\<close> is the plain case) and the
  document has an element with id \<open>greeting\<close>, the script's one effect on the document is
  the assignment of \<open>X\<close> to that element's \<open>textContent\<close>. Afterwards the element is still
  the one \<open>getElementById\<close> finds, its text content is exactly \<open>X\<close>, every node that is
  not below it has its tag, attributes, text and place as before, and no rejection is left
  unhandled.
\<close>

theorem script_sets_textContent:
  assumes "fetch greeting_request = Inr r"
    and "json r = Inr j"
    and "data_greeting j = Some (JStr X)"
    and "getElementById ''greeting'' (document pg) = Some el"
  shows "script fetch pg =
           pg\<lparr>sent := sent pg @ [greeting_request],
              document := update_at el (replace_children X) (document pg)\<rparr>
         \<and> getElementById ''greeting'' (document (script fetch pg)) = Some el
         \<and> map_option textContent (node_at el (document (script fetch pg))) = Some X
         \<and> (\<forall>q. \<not> strict_prefix el q \<longrightarrow>
                map_option shallow (node_at q (document (script fetch pg))) =
                map_option shallow (node_at q (document pg)))"
proof -
  have g: "fst (fetchGreeting fetch (sent pg)) = Inr (Val (JStr X))"
    using fetchGreeting_resolved[where fetch=fetch, OF assms(1,2)] read_data_greeting[OF assms(3)] by simp
  have eq: "script fetch pg =
           pg\<lparr>sent := sent pg @ [greeting_request],
              document := update_at el (replace_children X) (document pg)\<rparr>"
    using script_resolved[OF g assms(4), of X] by simp
  obtain tag attrs cs where el: "node_at el (document pg) = Some (Element tag attrs cs)"
    using getElementById_is_element[OF assms(4)] by blast
  have "getElementById ''greeting'' (update_at el (replace_children X) (document pg)) = Some el"
    by (rule getElementById_update[OF keeps_element_replace_children assms(4)])
  moreover have "map_option textContent (node_at el (update_at el (replace_children X) (document pg))) = Some X"
    by (simp add: node_at_update_same el)
  moreover have "\<forall>q. \<not> strict_prefix el q \<longrightarrow>
      map_option shallow (node_at q (update_at el (replace_children X) (document pg))) =
      map_option shallow (node_at q (document pg))"
    using node_at_update_frame[OF keeps_element_replace_children el] by blast
  ultimately show ?thesis by (simp add: eq)
qed

theorem script_sets_textContent_witness:
  "getElementById ''greeting'' (document example_page) = Some [0, 0, 1]
   \<and> document (script (respond 200 [] (JObj [(''data'', JObj [(''greeting'', JStr ''X'')])]))
                 example_page) =
       [Element ''html'' []
          [Element ''body'' []
             [Element ''h1'' [] [Text ''Greeting''],
              Element ''p'' [(''id'', ''greeting'')] [Text ''X'']]]]
   \<and> unhandled (script (respond 200 [] (JObj [(''data'', JObj [(''greeting'', JStr ''X'')])]))
                  example_page) = []"
proof -
  let ?j = "JObj [(''data'', JObj [(''greeting'', JStr ''X'')])]"
  have h1: "respond 200 [] ?j greeting_request =
              Inr \<lparr>status = 200, ok = True, response_headers = [], json = Inr ?j\<rparr>"
    by (simp add: respond_def)
  have h2: "json \<lparr>status = 200, ok = True, response_headers = [], json = Inr ?j\<rparr> = Inr ?j"
    by simp
  have h3: "data_greeting ?j = Some (JStr ''X'')"
    by (simp add: data_greeting_def)
  from script_sets_textContent[where fetch = "respond 200 [] ?j", OF h1 h2 h3 example_element]
  show ?thesis
    using example_element by (simp add: example_page_def example_document_def)
qed



text \<open>
  C6. The resolver is a constant: one call returns \<open>Hello world\<close> and leaves the state as
  it was, for any argument and any state, and any number of calls, in any order and from
  any state, return \<open>Hello world\<close> each time.
\<close>

theorem greeting_pure:
  "greeting a s = (''Hello world'', s)
   \<and> call_all calls s = (replicate (length calls) ''Hello world'', s)"
proof
  show "greeting a s = (''Hello world'', s)" by (simp add: greeting_def)
  show "call_all calls s = (replicate (length calls) ''Hello world'', s)"
    by (induction calls) (simp_all add: greeting_def)
qed

theorem greeting_pure_witness:
  "call_all [(), (), ()] (0::nat) = ([''Hello world'', ''Hello world'', ''Hello world''], 0)"
  using greeting_pure[of "()" "0::nat" "[(), (), ()]"] by (simp add: numeral_3_eq_3)

text \<open>
  C7. Each way in which \<open>fetchGreeting\<close> can fail ends the same: the one request was sent
  (there is no second try), the rejection is left unhandled, and the document is as it
  was. That holds when \<open>fetch\<close> rejects, when \<open>response.json()\<close> rejects, when the body
  is \<open>null\<close> and the destructuring throws, when the body has no \<open>data\<close> or \<open>data\<close> is
  \<open>null\<close> and reading \<open>.greeting\<close> throws, and in general whenever the promise of
  \<open>fetchGreeting\<close> rejects.
\<close>

theorem rejection_unhandled:
  "(fetch greeting_request = Inl e \<longrightarrow>
      script fetch pg =
        pg\<lparr>sent := sent pg @ [greeting_request], unhandled := unhandled pg @ [e]\<rparr>)
   \<and> (fetch greeting_request = Inr r \<and> json r = Inl e \<longrightarrow>
      script fetch pg =
        pg\<lparr>sent := sent pg @ [greeting_request], unhandled := unhandled pg @ [e]\<rparr>)
   \<and> (fetch greeting_request = Inr r \<and> json r = Inr JNull \<longrightarrow>
      script fetch pg =
        pg\<lparr>sent := sent pg @ [greeting_request],
           unhandled := unhandled pg @ [TypeError_destructure ''data'']\<rparr>)
   \<and> (fetch greeting_request = Inr r \<and> json r = Inr j \<and> j \<noteq> JNull
        \<and> member ''data'' j = None \<longrightarrow>
      script fetch pg =
        pg\<lparr>sent := sent pg @ [greeting_request],
           unhandled := unhandled pg @ [TypeError_read ''greeting'' Undefined]\<rparr>)
   \<and> (fetch greeting_request = Inr r \<and> json r = Inr j \<and> member ''data'' j = Some JNull \<longrightarrow>
      script fetch pg =
        pg\<lparr>sent := sent pg @ [greeting_request],
           unhandled := unhandled pg @ [TypeError_read ''greeting'' (Val JNull)]\<rparr>)
   \<and> (fst (fetchGreeting fetch (sent pg)) = Inl e \<longrightarrow>
      script fetch pg =
        pg\<lparr>sent := sent pg @ [greeting_request], unhandled := unhandled pg @ [e]\<rparr>
      \<and> document (script fetch pg) = document pg)"
proof (intro conjI impI; (elim conjE)?)
  assume "fetch greeting_request = Inl e"
  then have "fst (fetchGreeting fetch (sent pg)) = Inl e" by (simp add: fetchGreeting_def)
  then show "script fetch pg =
        pg\<lparr>sent := sent pg @ [greeting_request], unhandled := unhandled pg @ [e]\<rparr>"
    by (rule script_rejected)
next
  assume "fetch greeting_request = Inr r" "json r = Inl e"
  then have "fst (fetchGreeting fetch (sent pg)) = Inl e" by (simp add: fetchGreeting_def)
  then show "script fetch pg =
        pg\<lparr>sent := sent pg @ [greeting_request], unhandled := unhandled pg @ [e]\<rparr>"
    by (rule script_rejected)
next
  assume a: "fetch greeting_request = Inr r" "json r = Inr JNull"
  have "fst (fetchGreeting fetch (sent pg)) = Inl (TypeError_destructure ''data'')"
    using fetchGreeting_outcome[where fetch = fetch, OF a] by (simp add: data_greeting_value_def)
  then show "script fetch pg =
        pg\<lparr>sent := sent pg @ [greeting_request],
           unhandled := unhandled pg @ [TypeError_destructure ''data'']\<rparr>"
    by (rule script_rejected)
next
  assume a: "fetch greeting_request = Inr r" "json r = Inr j" and n: "j \<noteq> JNull"
    and m: "member ''data'' j = None"
  have "fst (fetchGreeting fetch (sent pg)) = Inl (TypeError_read ''greeting'' Undefined)"
    using fetchGreeting_outcome[where fetch = fetch, OF a] n m
    by (simp add: data_greeting_value_def)
  then show "script fetch pg =
        pg\<lparr>sent := sent pg @ [greeting_request],
           unhandled := unhandled pg @ [TypeError_read ''greeting'' Undefined]\<rparr>"
    by (rule script_rejected)
next
  assume a: "fetch greeting_request = Inr r" "json r = Inr j"
    and m: "member ''data'' j = Some JNull"
  from m have n: "j \<noteq> JNull" by auto
  have "fst (fetchGreeting fetch (sent pg)) = Inl (TypeError_read ''greeting'' (Val JNull))"
    using fetchGreeting_outcome[where fetch = fetch, OF a] n m
    by (simp add: data_greeting_value_def)
  then show "script fetch pg =
        pg\<lparr>sent := sent pg @ [greeting_request],
           unhandled := unhandled pg @ [TypeError_read ''greeting'' (Val JNull)]\<rparr>"
    by (rule script_rejected)
next
  assume e: "fst (fetchGreeting fetch (sent pg)) = Inl e"
  then show "script fetch pg =
        pg\<lparr>sent := sent pg @ [greeting_request], unhandled := unhandled pg @ [e]\<rparr>"
    by (rule script_rejected)
  then show "document (script fetch pg) = document pg" by simp
qed

theorem rejection_unhandled_witness:
  "script (\<lambda>q. Inl (Rejected ''Failed to fetch'')) example_page =
     example_page\<lparr>sent := [greeting_request], unhandled := [Rejected ''Failed to fetch'']\<rparr>
   \<and> script (\<lambda>q. Inr \<lparr>status = 200, ok = True, response_headers = [],
                         json = Inl (Rejected ''Unexpected token'')\<rparr>) example_page =
     example_page\<lparr>sent := [greeting_request], unhandled := [Rejected ''Unexpected token'']\<rparr>
   \<and> script (respond 200 [] (JObj [(''data'', JNull)])) example_page =
     example_page\<lparr>sent := [greeting_request],
                   unhandled := [TypeError_read ''greeting'' (Val JNull)]\<rparr>"
proof -
  let ?r = "\<lparr>status = 200, ok = True, response_headers = [],
             json = Inl (Rejected ''Unexpected token'')\<rparr>"
  let ?j = "JObj [(''data'', JNull)]"
  have 1: "script (\<lambda>q. Inl (Rejected ''Failed to fetch'')) example_page =
     example_page\<lparr>sent := [greeting_request], unhandled := [Rejected ''Failed to fetch'']\<rparr>"
    using rejection_unhandled[where fetch = "\<lambda>q. Inl (Rejected ''Failed to fetch'')"
        and e = "Rejected ''Failed to fetch''" and pg = example_page]
    by (simp add: example_page_def)
  have 2: "script (\<lambda>q. Inr ?r) example_page =
     example_page\<lparr>sent := [greeting_request], unhandled := [Rejected ''Unexpected token'']\<rparr>"
    using rejection_unhandled[where fetch = "\<lambda>q. Inr ?r" and r = ?r
        and e = "Rejected ''Unexpected token''" and pg = example_page]
    by (simp add: example_page_def)
  have 3: "script (respond 200 [] ?j) example_page =
     example_page\<lparr>sent := [greeting_request],
                   unhandled := [TypeError_read ''greeting'' (Val JNull)]\<rparr>"
    using rejection_unhandled[where fetch = "respond 200 [] ?j" and j = ?j
        and r = "\<lparr>status = 200, ok = True, response_headers = [], json = Inr ?j\<rparr>"
        and pg = example_page]
    by (simp add: example_page_def respond_def)
  from 1 2 3 show ?thesis by simp
qed

text \<open>
  C8. When the start succeeds, what the module does is: ask the library to listen on
  port 9001, then write \<open>Server running at\<close> and the URL to the console, once. The port is
  the literal 9001 and the process environment plays no part: the result is the same for
  every environment.
\<close>

theorem startup_effects:
  assumes "listen 9001 = Inr u"
  shows "server_script env listen = [Listen 9001, ConsoleLog (''Server running at '' @ u)]"
  using assms by (simp add: server_script_def server_eq)

theorem startup_effects_witness:
  "server_script (\<lambda>v. None) (\<lambda>p. Inr ''http://localhost:9001/'') =
     [Listen 9001, ConsoleLog ''Server running at http://localhost:9001/'']"
  using startup_effects[of "\<lambda>p. Inr ''http://localhost:9001/''" "''http://localhost:9001/''" "\<lambda>v. None"]
  by simp

text \<open>
  C9, as it stands, fails on the body \<open>null\<close>: it has no \<open>data\<close> key, and there the
  destructuring of \<open>data\<close> throws, before any \<open>.greeting\<close> is read.
\<close>

theorem no_data_key_counterexample:
  "member ''data'' JNull = None
   \<and> fst (fetchGreeting (respond 200 [] JNull) []) = Inl (TypeError_destructure ''data'')
   \<and> fst (fetchGreeting (respond 200 [] JNull) []) \<noteq> Inl (TypeError_read ''greeting'' Undefined)"
  by (simp add: fetchGreeting_def respond_def destructure_data_def)

text \<open>
  C9, amended. When \<open>fetch\<close> resolves and the parsed body has no \<open>data\<close> key (an object
  that lacks it, such as an errors-only answer, or an array, string, number, boolean or
  \<open>null\<close>), \<open>fetchGreeting\<close> throws a \<open>TypeError\<close>: on reading \<open>.greeting\<close> of
  \<open>undefined\<close> for every such body but \<open>null\<close>, and on the destructuring of \<open>data\<close> for
  \<open>null\<close>. Either way the rejection is unhandled, nothing is rendered and the document is
  as it was.
\<close>

theorem no_data_key_type_error:
  assumes "fetch greeting_request = Inr r"
    and "json r = Inr j"
    and "member ''data'' j = None"
  shows "fst (fetchGreeting fetch (sent pg)) =
           Inl (if j = JNull then TypeError_destructure ''data''
                else TypeError_read ''greeting'' Undefined)
         \<and> script fetch pg =
             pg\<lparr>sent := sent pg @ [greeting_request],
                unhandled := unhandled pg @
                  [if j = JNull then TypeError_destructure ''data''
                   else TypeError_read ''greeting'' Undefined]\<rparr>
         \<and> document (script fetch pg) = document pg"
proof -
  have e: "fst (fetchGreeting fetch (sent pg)) =
           Inl (if j = JNull then TypeError_destructure ''data''
                else TypeError_read ''greeting'' Undefined)"
    using fetchGreeting_outcome[where fetch = fetch, OF assms(1,2)] assms(3)
    by (simp add: data_greeting_value_def)
  from script_rejected[OF e] e show ?thesis by simp
qed

theorem no_data_key_type_error_witness:
  "script (respond 400 [] (JObj [(''errors'', JArr [JObj [(''message'', JStr ''bad'')]])]))
          example_page =
     example_page\<lparr>sent := [greeting_request],
                   unhandled := [TypeError_read ''greeting'' Undefined]\<rparr>
   \<and> script (respond 200 [] JNull) example_page =
     example_page\<lparr>sent := [greeting_request], unhandled := [TypeError_destructure ''data'']\<rparr>
   \<and> document (script (respond 400 [] (JObj [(''errors'', JArr [JObj [(''message'', JStr ''bad'')]])]))
                  example_page) = example_document"
proof -
  let ?j = "JObj [(''errors'', JArr [JObj [(''message'', JStr ''bad'')]])]"
  have h1: "respond 400 [] ?j greeting_request =
              Inr \<lparr>status = 400, ok = False, response_headers = [], json = Inr ?j\<rparr>"
    by (simp add: respond_def)
  have h2: "json \<lparr>status = 400, ok = False, response_headers = [], json = Inr ?j\<rparr> = Inr ?j"
    by simp
  have h3: "member ''data'' ?j = None" by simp
  have n1: "respond 200 [] JNull greeting_request =
              Inr \<lparr>status = 200, ok = True, response_headers = [], json = Inr JNull\<rparr>"
    by (simp add: respond_def)
  have n2: "json \<lparr>status = 200, ok = True, response_headers = [], json = Inr JNull\<rparr> = Inr JNull"
    by simp
  have n3: "member ''data'' JNull = None" by simp
  from no_data_key_type_error[where fetch = "respond 400 [] ?j" and pg = example_page, OF h1 h2 h3]
    no_data_key_type_error[where fetch = "respond 200 [] JNull" and pg = example_page, OF n1 n2 n3]
  show ?thesis by (simp add: example_page_def)
qed



end
